theory Spec2Isabelle
  imports Complex_Main "HOL-Library.Sublist"
begin

section \<open>Data model (app/lib/types.ts)\<close>

text \<open>
  The taxonomy enum \<^verbatim>\<open>NodeType\<close> and the edge label union \<^verbatim>\<open>EdgeLabel\<close>.
\<close>

datatype NodeType = Hotel | Subway | Attraction

datatype EdgeLabel = TRANSIT_ACCESS | WALKABLE_TO

text \<open>\<^verbatim>\<open>NODE_COLORS\<close> and \<^verbatim>\<open>EDGE_COLORS\<close>: the two constant colour tables.\<close>

fun NODE_COLORS :: "NodeType \<Rightarrow> string" where
  "NODE_COLORS Hotel = ''#3B82F6''"
| "NODE_COLORS Subway = ''#10B981''"
| "NODE_COLORS Attraction = ''#F59E0B''"

fun EDGE_COLORS :: "EdgeLabel \<Rightarrow> string" where
  "EDGE_COLORS TRANSIT_ACCESS = ''rgba(16,185,129,0.50)''"
| "EDGE_COLORS WALKABLE_TO = ''rgba(245,158,11,0.50)''"

text \<open>
  \<^verbatim>\<open>interface GraphNode\<close>. The field \<^verbatim>\<open>id\<close> is called \<open>node_id\<close> here, since \<open>id\<close> is
  the identity function of HOL. The runtime fields \<^verbatim>\<open>x\<close>, \<^verbatim>\<open>y\<close> belong to the force
  simulation and are not part of the derivation. Coordinates are JavaScript numbers;
  they are modelled as real numbers (rounding of IEEE doubles is not modelled).
  \<^verbatim>\<open>degree\<close> only ever holds a count, so it is a natural number.
\<close>

record GraphNode =
  node_id :: string
  name :: string
  type :: NodeType
  lat :: real
  lon :: real
  color :: string
  degree :: nat

text \<open>
  \<^verbatim>\<open>interface GraphLink\<close> and \<^verbatim>\<open>interface RawLink\<close> have the same four fields; the
  second is the snapshot with plain string endpoints that the query engine reads.
\<close>

record GraphLink =
  source :: string
  target :: string
  label :: EdgeLabel
  link_color :: string

type_synonym RawLink = GraphLink

record GraphData =
  nodes :: "GraphNode list"
  links :: "GraphLink list"

section \<open>Raw records (interface OsmElement)\<close>

datatype OsmKind = OsmNode | OsmWay | OsmRelation

text \<open>
  \<^verbatim>\<open>id: number; type: 'node' | 'way' | 'relation'; lat?: number; lon?: number;
  center?: { lat, lon }; tags?: Record<string, string>\<close>.
  Optional fields are options, the tag record is a partial map, and the numeric
  identifier is an integer (identifiers of the upstream service are integers).
\<close>

record OsmElement =
  el_id :: int
  el_type :: OsmKind
  el_lat :: "real option"
  el_lon :: "real option"
  center :: "(real \<times> real) option"
  tags :: "(string \<rightharpoonup> string) option"

section \<open>Ontology utilities\<close>

text \<open>
  \<^verbatim>\<open>Math.atan2(y, x)\<close> on real numbers: the angle of the point \<open>(x, y)\<close>, in
  \<open>(-\<pi>, \<pi>]\<close>.
\<close>

definition atan2 :: "real \<Rightarrow> real \<Rightarrow> real" where
  "atan2 y x =
     (if 0 < x then arctan (y / x)
      else if x < 0 \<and> 0 \<le> y then arctan (y / x) + pi
      else if x < 0 \<and> y < 0 then arctan (y / x) - pi
      else if 0 < y then pi / 2
      else if y < 0 then - (pi / 2)
      else 0)"

definition toRad :: "real \<Rightarrow> real" where
  "toRad d = (d * pi) / 180"

text \<open>
  \<^verbatim>\<open>
  function haversine(lat1, lon1, lat2, lon2) {
    const R = 6_371_000;
    const dLat = toRad(lat2 - lat1);
    const dLon = toRad(lon2 - lon1);
    const a = Math.sin(dLat / 2) ** 2 +
      Math.cos(toRad(lat1)) * Math.cos(toRad(lat2)) * Math.sin(dLon / 2) ** 2;
    return R * 2 * Math.atan2(Math.sqrt(a), Math.sqrt(1 - a));
  }
  \<close>
\<close>

definition haversine :: "real \<Rightarrow> real \<Rightarrow> real \<Rightarrow> real \<Rightarrow> real" where
  "haversine lat1 lon1 lat2 lon2 =
     (let R = 6371000;
          dLat = toRad (lat2 - lat1);
          dLon = toRad (lon2 - lon1);
          a = (sin (dLat / 2))\<^sup>2
              + cos (toRad lat1) * cos (toRad lat2) * (sin (dLon / 2))\<^sup>2
      in R * 2 * atan2 (sqrt a) (sqrt (1 - a)))"

text \<open>
  \<^verbatim>\<open>
  function classifyOsmElement(tags) {
    if (tags.tourism === 'hotel') return NodeType.Hotel;
    if (tags.railway === 'station' && tags.station === 'subway') return NodeType.Subway;
    return NodeType.Attraction;
  }
  \<close>
\<close>

definition classifyOsmElement :: "(string \<rightharpoonup> string) \<Rightarrow> NodeType" where
  "classifyOsmElement tgs =
     (if tgs ''tourism'' = Some ''hotel'' then Hotel
      else if tgs ''railway'' = Some ''station'' \<and> tgs ''station'' = Some ''subway'' then Subway
      else Attraction)"

section \<open>Entity construction\<close>

text \<open>Decimal rendering of the numeric identifier inside the template strings.\<close>

definition digitChar :: "nat \<Rightarrow> char" where
  "digitChar d =
     (if d = 0 then CHR ''0'' else if d = 1 then CHR ''1'' else if d = 2 then CHR ''2''
      else if d = 3 then CHR ''3'' else if d = 4 then CHR ''4'' else if d = 5 then CHR ''5''
      else if d = 6 then CHR ''6'' else if d = 7 then CHR ''7'' else if d = 8 then CHR ''8''
      else CHR ''9'')"

fun natToString :: "nat \<Rightarrow> string" where
  "natToString n =
     (if n < 10 then [digitChar n]
      else natToString (n div 10) @ [digitChar (n mod 10)])"

definition numToString :: "int \<Rightarrow> string" where
  "numToString i = (if i < 0 then ''-'' @ natToString (nat (- i)) else natToString (nat i))"

fun kindToString :: "OsmKind \<Rightarrow> string" where
  "kindToString OsmNode = ''node''"
| "kindToString OsmWay = ''way''"
| "kindToString OsmRelation = ''relation''"

text \<open>\<^verbatim>\<open>const lat = el.lat ?? el.center?.lat; const lon = el.lon ?? el.center?.lon;\<close>\<close>

definition resolveLat :: "OsmElement \<Rightarrow> real option" where
  "resolveLat el = (case el_lat el of Some a \<Rightarrow> Some a | None \<Rightarrow> map_option fst (center el))"

definition resolveLon :: "OsmElement \<Rightarrow> real option" where
  "resolveLon el = (case el_lon el of Some b \<Rightarrow> Some b | None \<Rightarrow> map_option snd (center el))"

text \<open>\<^verbatim>\<open>const id = `${el.type}-${el.id}`;\<close>\<close>

definition elementKey :: "OsmElement \<Rightarrow> string" where
  "elementKey el = kindToString (el_type el) @ ''-'' @ numToString (el_id el)"

text \<open>\<^verbatim>\<open>tags.name ?? tags['name:en'] ?? `OSM ${el.id}`\<close>, with \<^verbatim>\<open>tags = el.tags ?? {}\<close>.\<close>

definition elementTags :: "OsmElement \<Rightarrow> (string \<rightharpoonup> string)" where
  "elementTags el = (case tags el of Some t \<Rightarrow> t | None \<Rightarrow> Map.empty)"

definition elementName :: "OsmElement \<Rightarrow> string" where
  "elementName el =
     (case elementTags el ''name'' of Some nm \<Rightarrow> nm
      | None \<Rightarrow> (case elementTags el ''name:en'' of Some nm \<Rightarrow> nm
                 | None \<Rightarrow> ''OSM '' @ numToString (el_id el)))"

text \<open>The object pushed onto \<^verbatim>\<open>nodes\<close>.\<close>

definition makeNode :: "OsmElement \<Rightarrow> real \<Rightarrow> real \<Rightarrow> GraphNode" where
  "makeNode el la lo =
     \<lparr> node_id = elementKey el,
       name = elementName el,
       type = classifyOsmElement (elementTags el),
       lat = la,
       lon = lo,
       color = NODE_COLORS (classifyOsmElement (elementTags el)),
       degree = 0 \<rparr>"

text \<open>
  One iteration of \<^verbatim>\<open>for (const el of elements)\<close> on the loop state
  \<open>(seenIds, nodes)\<close>:
  \<^verbatim>\<open>
    if (lat == null || lon == null) continue;
    if (seenIds.has(id)) continue;
    seenIds.add(id);
    nodes.push({ ... });
  \<close>
\<close>

definition nodeStep :: "string set \<times> GraphNode list \<Rightarrow> OsmElement \<Rightarrow> string set \<times> GraphNode list" where
  "nodeStep st el =
     (case st of (seenIds, ns) \<Rightarrow>
        (case resolveLat el of
           None \<Rightarrow> (seenIds, ns)
         | Some la \<Rightarrow>
             (case resolveLon el of
                None \<Rightarrow> (seenIds, ns)
              | Some lo \<Rightarrow>
                  if elementKey el \<in> seenIds then (seenIds, ns)
                  else (insert (elementKey el) seenIds, ns @ [makeNode el la lo]))))"

definition buildNodes :: "OsmElement list \<Rightarrow> GraphNode list" where
  "buildNodes elements = snd (foldl nodeStep ({}, []) elements)"

section \<open>Ontology edge generation\<close>

definition makeLink :: "EdgeLabel \<Rightarrow> GraphNode \<Rightarrow> GraphNode \<Rightarrow> GraphLink" where
  "makeLink lb a b =
     \<lparr> source = node_id a, target = node_id b, label = lb, link_color = EDGE_COLORS lb \<rparr>"

text \<open>
  The body of \<^verbatim>\<open>for (const hotel of hotels)\<close>: first the loop over the subways,
  then the loop over the attractions, each pushing a link when the distance test holds.
\<close>

definition hotelLinks :: "GraphNode list \<Rightarrow> GraphNode list \<Rightarrow> GraphNode \<Rightarrow> GraphLink list" where
  "hotelLinks subways attractions hotel =
     map (makeLink TRANSIT_ACCESS hotel)
       (filter (\<lambda>subway. haversine (lat hotel) (lon hotel) (lat subway) (lon subway) \<le> 300) subways)
     @ map (makeLink WALKABLE_TO hotel)
       (filter (\<lambda>attraction.
          haversine (lat hotel) (lon hotel) (lat attraction) (lon attraction) \<le> 500) attractions)"

definition buildLinks :: "GraphNode list \<Rightarrow> GraphLink list" where
  "buildLinks ns =
     (let hotels = filter (\<lambda>n. type n = Hotel) ns;
          subways = filter (\<lambda>n. type n = Subway) ns;
          attractions = filter (\<lambda>n. type n = Attraction) ns
      in concat (map (hotelLinks subways attractions) hotels))"

section \<open>Degree centrality\<close>

text \<open>
  \<^verbatim>\<open>
  for (const { source, target } of links) {
    degreeMap.set(source, (degreeMap.get(source) ?? 0) + 1);
    degreeMap.set(target, (degreeMap.get(target) ?? 0) + 1);
  }
  for (const node of nodes) node.degree = degreeMap.get(node.id) ?? 0;
  \<close>
\<close>

definition getOrZero :: "(string \<rightharpoonup> nat) \<Rightarrow> string \<Rightarrow> nat" where
  "getOrZero m k = (case m k of Some d \<Rightarrow> d | None \<Rightarrow> 0)"

definition degreeStep :: "(string \<rightharpoonup> nat) \<Rightarrow> GraphLink \<Rightarrow> (string \<rightharpoonup> nat)" where
  "degreeStep m l =
     (let m1 = m(source l \<mapsto> getOrZero m (source l) + 1)
      in m1(target l \<mapsto> getOrZero m1 (target l) + 1))"

definition degreeMap :: "GraphLink list \<Rightarrow> (string \<rightharpoonup> nat)" where
  "degreeMap ls = foldl degreeStep Map.empty ls"

definition setDegrees :: "GraphLink list \<Rightarrow> GraphNode list \<Rightarrow> GraphNode list" where
  "setDegrees ls ns = map (\<lambda>n. n\<lparr>degree := getOrZero (degreeMap ls) (node_id n)\<rparr>) ns"

section \<open>The derivation run\<close>

text \<open>
  \<^verbatim>\<open>buildNycGraph\<close> after the request: \<open>elements\<close> is \<^verbatim>\<open>raw.elements ?? []\<close>.
\<close>

definition deriveGraph :: "OsmElement list \<Rightarrow> GraphData" where
  "deriveGraph elements =
     (let ns = buildNodes elements;
          ls = buildLinks ns
      in \<lparr> nodes = setDegrees ls ns, links = ls \<rparr>)"

text \<open>
  The request itself is outside the derivation; its outcome is the response status and,
  when the body parses, the optional \<^verbatim>\<open>elements\<close> array. A response that is not ok
  makes \<^verbatim>\<open>buildNycGraph\<close> throw.
\<close>

record Response =
  ok :: bool
  status :: nat
  statusText :: string
  elements :: "OsmElement list option"

datatype error = OverpassError string

definition buildNycGraph :: "Response \<Rightarrow> error + GraphData" where
  "buildNycGraph res =
     (if \<not> ok res
      then Inl (OverpassError (''Overpass API error: HTTP '' @ natToString (status res)
                  @ '' '' @ statusText res))
      else Inr (deriveGraph (case elements res of Some es \<Rightarrow> es | None \<Rightarrow> [])))"

section \<open>Query engine\<close>

datatype QueryMode = transit | culture | balanced | connected | hub | corridor

record QueryResult =
  hotel :: GraphNode
  transitCount :: nat
  cultureCount :: nat
  score :: nat

text \<open>
  The callback of \<^verbatim>\<open>.map((hotel) => ...)\<close> inside \<^verbatim>\<open>queryResults\<close>:
  \<^verbatim>\<open>
    const t = rawLinks.filter((l) => (l.source === hotel.id || l.target === hotel.id)
                                     && l.label === 'TRANSIT_ACCESS').length;
    const c = rawLinks.filter((l) => (l.source === hotel.id || l.target === hotel.id)
                                     && l.label === 'WALKABLE_TO').length;
    const score =
      queryMode === 'transit'   ? t * 2 + c :
      queryMode === 'culture'   ? c * 2 + t :
      queryMode === 'balanced'  ? t + c :
      queryMode === 'connected' ? (t > 0 && c > 0 ? t + c : 0) :
      queryMode === 'hub'       ? t * 3 + c :
      /* corridor */              c * 3 + t;
    return { hotel, transitCount: t, cultureCount: c, score };
  \<close>
\<close>

definition scoreHotel :: "RawLink list \<Rightarrow> QueryMode \<Rightarrow> GraphNode \<Rightarrow> QueryResult" where
  "scoreHotel rawLinks queryMode h =
     (let t = length (filter (\<lambda>l. (source l = node_id h \<or> target l = node_id h)
                                   \<and> label l = TRANSIT_ACCESS) rawLinks);
          c = length (filter (\<lambda>l. (source l = node_id h \<or> target l = node_id h)
                                   \<and> label l = WALKABLE_TO) rawLinks);
          sc = (if queryMode = transit then t * 2 + c
                else if queryMode = culture then c * 2 + t
                else if queryMode = balanced then t + c
                else if queryMode = connected then (if 0 < t \<and> 0 < c then t + c else 0)
                else if queryMode = hub then t * 3 + c
                else c * 3 + t)
      in \<lparr> hotel = h, transitCount = t, cultureCount = c, score = sc \<rparr>)"

text \<open>
  \<^verbatim>\<open>.sort((a, b) => b.score - a.score)\<close>. \<^verbatim>\<open>Array.prototype.sort\<close> is a stable sort:
  elements that the comparator does not separate keep their order. It is modelled as
  insertion sort with the source's comparator; an element is moved behind exactly
  those elements that the comparator puts strictly before it.
\<close>

definition cmpScore :: "QueryResult \<Rightarrow> QueryResult \<Rightarrow> int" where
  "cmpScore a b = int (score b) - int (score a)"

fun insertBy :: "('a \<Rightarrow> 'a \<Rightarrow> int) \<Rightarrow> 'a \<Rightarrow> 'a list \<Rightarrow> 'a list" where
  "insertBy cmp x [] = [x]"
| "insertBy cmp x (y # ys) = (if 0 < cmp x y then y # insertBy cmp x ys else x # y # ys)"

definition sortBy :: "('a \<Rightarrow> 'a \<Rightarrow> int) \<Rightarrow> 'a list \<Rightarrow> 'a list" where
  "sortBy cmp xs = foldr (insertBy cmp) xs []"

text \<open>
  \<^verbatim>\<open>
  if (!rawLinks.length || !graphData.nodes.length) return [];
  return graphData.nodes
    .filter((n) => n.type === NodeType.Hotel)
    .map(...)
    .filter((r) => r.score > 0)
    .sort((a, b) => b.score - a.score)
    .slice(0, 5);
  \<close>
\<close>

definition queryResults :: "RawLink list \<Rightarrow> GraphNode list \<Rightarrow> QueryMode \<Rightarrow> QueryResult list" where
  "queryResults rawLinks ns queryMode =
     (if length rawLinks = 0 \<or> length ns = 0 then []
      else take 5 (sortBy cmpScore
             (filter (\<lambda>r. 0 < score r)
                (map (scoreHotel rawLinks queryMode)
                   (filter (\<lambda>n. type n = Hotel) ns)))))"

section \<open>Specification-side notions\<close>

text \<open>
  The number of edges with a given label that are incident to an entity id: the counts
  \<open>t\<close> and \<open>c\<close> of the ranking rules, taken from the edge list alone.
\<close>

definition incidentCount :: "EdgeLabel \<Rightarrow> GraphLink list \<Rightarrow> string \<Rightarrow> nat" where
  "incidentCount lb ls i =
     length (filter (\<lambda>l. (source l = i \<or> target l = i) \<and> label l = lb) ls)"

text \<open>
  The entity a raw record stands for, when both of its coordinates resolve; a record
  without a usable coordinate stands for none.
\<close>

definition candidateNode :: "OsmElement \<Rightarrow> GraphNode option" where
  "candidateNode el =
     (case resolveLat el of
        None \<Rightarrow> None
      | Some la \<Rightarrow> (case resolveLon el of None \<Rightarrow> None | Some lo \<Rightarrow> Some (makeNode el la lo)))"

text \<open>First-occurrence deduplication by identity key: the head stays, later entities
  with the head's id are dropped.\<close>

fun firstById :: "GraphNode list \<Rightarrow> GraphNode list" where
  "firstById [] = []"
| "firstById (n # ns) = n # firstById (filter (\<lambda>m. node_id m \<noteq> node_id n) ns)"

section \<open>A small scenario\<close>

text \<open>
  A hotel, a subway station and a museum at the same place, and a second subway station
  half a turn around the equator. The hotel record carries a point coordinate and a
  centroid; the museum is an areal feature with a centroid only.
\<close>

definition scenario_elements :: "OsmElement list" where
  "scenario_elements =
     [ \<lparr> el_id = 1, el_type = OsmNode, el_lat = Some 0, el_lon = Some 0, center = Some (10, 20),
         tags = Some [''tourism'' \<mapsto> ''hotel'', ''name'' \<mapsto> ''H1''] \<rparr>,
       \<lparr> el_id = 2, el_type = OsmNode, el_lat = Some 0, el_lon = Some 0, center = None,
         tags = Some [''railway'' \<mapsto> ''station'', ''station'' \<mapsto> ''subway''] \<rparr>,
       \<lparr> el_id = 3, el_type = OsmWay, el_lat = None, el_lon = None, center = Some (0, 0),
         tags = Some [''tourism'' \<mapsto> ''museum''] \<rparr>,
       \<lparr> el_id = 4, el_type = OsmNode, el_lat = Some 0, el_lon = Some 180, center = None,
         tags = Some [''railway'' \<mapsto> ''station'', ''station'' \<mapsto> ''subway''] \<rparr> ]"

definition hotel_H1 :: GraphNode where
  "hotel_H1 = \<lparr> node_id = ''node-1'', name = ''H1'', type = Hotel, lat = 0, lon = 0,
                color = ''#3B82F6'', degree = 0 \<rparr>"

definition subway_S1 :: GraphNode where
  "subway_S1 = \<lparr> node_id = ''node-2'', name = ''OSM 2'', type = Subway, lat = 0, lon = 0,
                 color = ''#10B981'', degree = 0 \<rparr>"

definition museum_A1 :: GraphNode where
  "museum_A1 = \<lparr> node_id = ''way-3'', name = ''OSM 3'', type = Attraction, lat = 0, lon = 0,
                 color = ''#F59E0B'', degree = 0 \<rparr>"

definition subway_S2 :: GraphNode where
  "subway_S2 = \<lparr> node_id = ''node-4'', name = ''OSM 4'', type = Subway, lat = 0, lon = 180,
                 color = ''#10B981'', degree = 0 \<rparr>"

definition scenario_nodes :: "GraphNode list" where
  "scenario_nodes = [hotel_H1, subway_S1, museum_A1, subway_S2]"

definition scenario_links :: "GraphLink list" where
  "scenario_links =
     [ \<lparr> source = ''node-1'', target = ''node-2'', label = TRANSIT_ACCESS,
         link_color = ''rgba(16,185,129,0.50)'' \<rparr>,
       \<lparr> source = ''node-1'', target = ''way-3'', label = WALKABLE_TO,
         link_color = ''rgba(245,158,11,0.50)'' \<rparr> ]"

text \<open>Three raw records with kind node and numeric id 42: one without any coordinate,
  two with a point coordinate.\<close>

definition record_42_bare :: OsmElement where
  "record_42_bare = \<lparr> el_id = 42, el_type = OsmNode, el_lat = None, el_lon = None,
                      center = None, tags = None \<rparr>"

definition record_42_first :: OsmElement where
  "record_42_first = \<lparr> el_id = 42, el_type = OsmNode, el_lat = Some 1, el_lon = Some 2,
                       center = None, tags = None \<rparr>"

definition record_42_second :: OsmElement where
  "record_42_second = \<lparr> el_id = 42, el_type = OsmNode, el_lat = Some 3, el_lon = Some 4,
                        center = None, tags = None \<rparr>"

text \<open>Two hotels next to the same station: a tie under every mode.\<close>

definition hotel_H2 :: GraphNode where
  "hotel_H2 = \<lparr> node_id = ''node-5'', name = ''H2'', type = Hotel, lat = 0, lon = 0,
                color = ''#3B82F6'', degree = 0 \<rparr>"

definition tie_nodes :: "GraphNode list" where
  "tie_nodes = [hotel_H2, subway_S1, hotel_H1]"

definition tie_links :: "GraphLink list" where
  "tie_links =
     [ \<lparr> source = ''node-5'', target = ''node-2'', label = TRANSIT_ACCESS,
         link_color = ''rgba(16,185,129,0.50)'' \<rparr>,
       \<lparr> source = ''node-1'', target = ''node-2'', label = TRANSIT_ACCESS,
         link_color = ''rgba(16,185,129,0.50)'' \<rparr> ]"

section \<open>Auxiliary facts\<close>

subsection \<open>Entity construction\<close>

lemma candidateNode_id: "candidateNode el = Some n \<Longrightarrow> node_id n = elementKey el"
  by (auto simp: candidateNode_def makeNode_def split: option.splits)

lemma nodeStep_candidate:
  "nodeStep (seen, ns) el =
     (case candidateNode el of
        None \<Rightarrow> (seen, ns)
      | Some n \<Rightarrow> if node_id n \<in> seen then (seen, ns) else (insert (node_id n) seen, ns @ [n]))"
  by (auto simp: nodeStep_def candidateNode_def makeNode_def split: option.splits)

lemma foldl_nodeStep_snd:
  "snd (foldl nodeStep (seen, ns) els) =
     ns @ firstById (filter (\<lambda>m. node_id m \<notin> seen) (List.map_filter candidateNode els))"
proof (induction els arbitrary: seen ns)
  case Nil
  then show ?case by (simp add:)
next
  case (Cons el els)
  show ?case
  proof (cases "candidateNode el")
    case None
    then show ?thesis using Cons.IH[of seen ns]
      by (simp add: nodeStep_candidate)
  next
    case (Some n)
    show ?thesis
    proof (cases "node_id n \<in> seen")
      case True
      then show ?thesis using Some Cons.IH[of seen ns]
        by (simp add: nodeStep_candidate)
    next
      case False
      from False Some Cons.IH[of "insert (node_id n) seen" "ns @ [n]"] show ?thesis
        by (simp add: nodeStep_candidate conj_commute)
    qed
  qed
qed

lemma buildNodes_firstById:
  "buildNodes els = firstById (List.map_filter candidateNode els)"
  by (simp add: buildNodes_def foldl_nodeStep_snd)

lemma set_firstById: "set (firstById xs) \<subseteq> set xs"
  by (induction xs rule: firstById.induct) auto

lemma distinct_firstById: "distinct (map node_id (firstById xs))"
proof (induction xs rule: firstById.induct)
  case 1
  then show ?case by simp
next
  case (2 n ns)
  have "node_id n \<notin> node_id ` set (firstById (filter (\<lambda>m. node_id m \<noteq> node_id n) ns))"
    using set_firstById[of "filter (\<lambda>m. node_id m \<noteq> node_id n) ns"] by auto
  with 2 show ?case by simp
qed

lemma buildNodes_distinct: "distinct (map node_id (buildNodes els))"
  by (simp add: buildNodes_firstById distinct_firstById)

lemma buildLinks_mem:
  "l \<in> set (buildLinks ns) \<longleftrightarrow>
     (\<exists>h s. h \<in> set ns \<and> s \<in> set ns \<and> type h = Hotel \<and>
        ((type s = Subway \<and> haversine (lat h) (lon h) (lat s) (lon s) \<le> 300
            \<and> l = makeLink TRANSIT_ACCESS h s)
         \<or> (type s = Attraction \<and> haversine (lat h) (lon h) (lat s) (lon s) \<le> 500
            \<and> l = makeLink WALKABLE_TO h s)))"
  by (auto simp: buildLinks_def hotelLinks_def Let_def)

lemma distinct_ids_inj:
  "distinct (map node_id ns) \<Longrightarrow> a \<in> set ns \<Longrightarrow> b \<in> set ns \<Longrightarrow> node_id a = node_id b \<Longrightarrow> a = b"
  by (meson distinct_map inj_onD)

lemma buildLinks_endpoints_differ:
  assumes "distinct (map node_id ns)" "l \<in> set (buildLinks ns)"
  shows "source l \<noteq> target l"
proof -
  from assms(2) obtain h s where hs: "h \<in> set ns" "s \<in> set ns" "type h = Hotel"
      "type s \<noteq> Hotel" "source l = node_id h" "target l = node_id s"
    by (auto simp: buildLinks_mem makeLink_def)
  then have "h \<noteq> s" by auto
  with hs assms(1) show ?thesis using distinct_ids_inj by metis
qed

lemma degree_fold:
  "getOrZero (foldl degreeStep m ls) k =
     getOrZero m k + length (filter (\<lambda>l. source l = k) ls) + length (filter (\<lambda>l. target l = k) ls)"
proof (induction ls arbitrary: m)
  case Nil
  then show ?case by simp
next
  case (Cons l ls)
  have "getOrZero (degreeStep m l) k =
          getOrZero m k + (if source l = k then 1 else 0) + (if target l = k then 1 else 0)"
    by (simp add: degreeStep_def getOrZero_def Let_def)
  then show ?case using Cons.IH[of "degreeStep m l"] by simp
qed

lemma incident_count_split:
  "\<forall>l \<in> set ls. source l \<noteq> target l \<Longrightarrow>
     length (filter (\<lambda>l. source l = k \<or> target l = k) ls) =
       length (filter (\<lambda>l. source l = k) ls) + length (filter (\<lambda>l. target l = k) ls)"
  by (induction ls) auto

lemma setDegrees_degree:
  "n \<in> set (setDegrees ls ns) \<Longrightarrow>
     degree n = length (filter (\<lambda>l. source l = node_id n) ls) + length (filter (\<lambda>l. target l = node_id n) ls)"
proof -
  have z: "getOrZero Map.empty k = 0" for k by (simp add: getOrZero_def)
  assume "n \<in> set (setDegrees ls ns)"
  then obtain m where "m \<in> set ns" "n = m\<lparr>degree := getOrZero (degreeMap ls) (node_id m)\<rparr>"
    by (auto simp: setDegrees_def)
  then show ?thesis
    by (simp add: degreeMap_def degree_fold z)
qed

lemma triples_hotelLinks:
  "distinct (map node_id subs) \<Longrightarrow> distinct (map node_id atts) \<Longrightarrow>
   distinct (map (\<lambda>l. (source l, target l, label l)) (hotelLinks subs atts h))"
  by (auto simp: hotelLinks_def makeLink_def distinct_map comp_def inj_on_def distinct_map_filter)

lemma hotelLinks_source: "l \<in> set (hotelLinks subs atts h) \<Longrightarrow> source l = node_id h"
  by (auto simp: hotelLinks_def makeLink_def)

lemma triples_concat:
  "distinct (map node_id hs) \<Longrightarrow> distinct (map node_id subs) \<Longrightarrow> distinct (map node_id atts) \<Longrightarrow>
   distinct (map (\<lambda>l. (source l, target l, label l)) (concat (map (hotelLinks subs atts) hs)))"
proof (induction hs)
  case Nil
  then show ?case by simp
next
  case (Cons h hs)
  have disj: "\<And>l l'. l \<in> set (hotelLinks subs atts h) \<Longrightarrow>
        l' \<in> set (concat (map (hotelLinks subs atts) hs)) \<Longrightarrow> source l \<noteq> source l'"
  proof -
    fix l l'
    assume a: "l \<in> set (hotelLinks subs atts h)"
      and b: "l' \<in> set (concat (map (hotelLinks subs atts) hs))"
    from b obtain h' where "h' \<in> set hs" "l' \<in> set (hotelLinks subs atts h')" by auto
    then have "source l' \<in> node_id ` set hs" using hotelLinks_source by fastforce
    moreover have "source l = node_id h" using a by (rule hotelLinks_source)
    ultimately show "source l \<noteq> source l'" using Cons.prems(1) by auto
  qed
  show ?case
    using Cons triples_hotelLinks[of subs atts h] disj by (fastforce simp: )
qed

lemma buildLinks_distinct_triples:
  "distinct (map node_id ns) \<Longrightarrow> distinct (map (\<lambda>l. (source l, target l, label l)) (buildLinks ns))"
  unfolding buildLinks_def Let_def
  by (intro triples_concat) (simp_all add: distinct_map_filter)


subsection \<open>Distances and sorting\<close>

lemma haversine_same: "haversine la lo la lo = 0"
  by (simp add: haversine_def toRad_def atan2_def)

lemma haversine_half_turn: "haversine 0 0 0 180 = 6371000 * pi"
  by (simp add: haversine_def toRad_def atan2_def)

lemma haversine_half_turn_far: "\<not> haversine 0 0 0 180 \<le> 500"
proof -
  have "(500::real) < 6371000 * 2" by simp
  also have "\<dots> \<le> 6371000 * pi" using pi_ge_two by simp
  finally show ?thesis by (simp add: haversine_half_turn)
qed

lemma insertBy_cmpScore:
  "insertBy cmpScore x ys = insort_key (\<lambda>r. - int (score r)) x ys"
  by (induction ys) (auto simp: cmpScore_def)

lemma sortBy_cmpScore: "sortBy cmpScore xs = sort_key (\<lambda>r. - int (score r)) xs"
proof -
  have "insertBy cmpScore = insort_key (\<lambda>r. - int (score r))"
    by (intro ext) (rule insertBy_cmpScore)
  then show ?thesis by (simp add: sortBy_def sort_key_def)
qed

lemma sortBy_cmpScore_sorted: "sorted_wrt (\<lambda>a b. score b \<le> score a) (sortBy cmpScore xs)"
proof -
  have "sorted (map (\<lambda>r. - int (score r)) (sort_key (\<lambda>r. - int (score r)) xs))"
    by (rule sorted_sort_key)
  then show ?thesis by (simp add: sortBy_cmpScore sorted_map)
qed

lemma sortBy_cmpScore_set: "set (sortBy cmpScore xs) = set xs"
  by (simp add: sortBy_cmpScore)

lemma sortBy_cmpScore_stable:
  "filter (\<lambda>r. score r = k) (sortBy cmpScore xs) = filter (\<lambda>r. score r = k) xs"
proof -
  have "filter (\<lambda>r. - int (score r) = - int k) (sort_key (\<lambda>r. - int (score r)) xs)
        = filter (\<lambda>r. - int (score r) = - int k) xs"
    by (rule sort_key_stable)
  then show ?thesis by (simp add: sortBy_cmpScore)
qed


lemma haversine_half_turn_gt: "\<not> haversine 0 0 0 180 \<le> 300"
  using haversine_half_turn_far by simp

subsection \<open>Ranking\<close>

lemma queryResults_subset:
  "set (queryResults ls ns m)
     \<subseteq> {r. 0 < score r} \<inter> scoreHotel ls m ` {n \<in> set ns. type n = Hotel}"
proof (cases "length ls = 0 \<or> length ns = 0")
  case True
  then show ?thesis by (auto simp: queryResults_def)
next
  case False
  then have "queryResults ls ns m = take 5 (sortBy cmpScore
             (filter (\<lambda>r. 0 < score r)
                (map (scoreHotel ls m) (filter (\<lambda>n. type n = Hotel) ns))))"
    by (simp add: queryResults_def)
  then have "set (queryResults ls ns m) \<subseteq> set (sortBy cmpScore
             (filter (\<lambda>r. 0 < score r)
                (map (scoreHotel ls m) (filter (\<lambda>n. type n = Hotel) ns))))"
    by (simp add: set_take_subset)
  then show ?thesis
    by (auto simp: sortBy_cmpScore_set)
qed

lemma scoreHotel_hotel: "hotel (scoreHotel ls m h) = h"
  by (simp add: scoreHotel_def Let_def)

subsection \<open>The request\<close>

lemma buildNycGraph_ok:
  "ok res \<Longrightarrow> elements res = Some es \<Longrightarrow> buildNycGraph res = Inr (deriveGraph es)"
  by (simp add: buildNycGraph_def)

subsection \<open>The scenario, evaluated\<close>

lemma scenario_buildNodes: "buildNodes scenario_elements = scenario_nodes"
  by (simp add: scenario_elements_def scenario_nodes_def hotel_H1_def subway_S1_def
      museum_A1_def subway_S2_def buildNodes_def nodeStep_def
      resolveLat_def resolveLon_def elementKey_def numToString_def digitChar_def makeNode_def
      elementName_def elementTags_def classifyOsmElement_def)

lemma scenario_buildLinks: "buildLinks scenario_nodes = scenario_links"
  by (simp add: scenario_nodes_def scenario_links_def hotel_H1_def subway_S1_def
      museum_A1_def subway_S2_def buildLinks_def hotelLinks_def
      makeLink_def haversine_same haversine_half_turn_far haversine_half_turn_gt)

lemma scenario_degrees:
  "setDegrees scenario_links scenario_nodes =
     [ hotel_H1\<lparr>degree := 2\<rparr>, subway_S1\<lparr>degree := 1\<rparr>,
       museum_A1\<lparr>degree := 1\<rparr>, subway_S2\<lparr>degree := 0\<rparr> ]"
  by (simp add: scenario_nodes_def scenario_links_def hotel_H1_def subway_S1_def
      museum_A1_def subway_S2_def setDegrees_def degreeMap_def
      degreeStep_def getOrZero_def Let_def)

lemma scenario_graph:
  "deriveGraph scenario_elements =
     \<lparr> nodes = [ hotel_H1\<lparr>degree := 2\<rparr>, subway_S1\<lparr>degree := 1\<rparr>,
                 museum_A1\<lparr>degree := 1\<rparr>, subway_S2\<lparr>degree := 0\<rparr> ],
       links = scenario_links \<rparr>"
  by (simp add: deriveGraph_def Let_def scenario_buildNodes scenario_buildLinks scenario_degrees)

lemma scenario_query:
  "queryResults scenario_links scenario_nodes transit =
     [\<lparr> hotel = hotel_H1, transitCount = 1, cultureCount = 1, score = 3 \<rparr>]"
  by (simp add: queryResults_def scoreHotel_def sortBy_def scenario_nodes_def scenario_links_def
      hotel_H1_def subway_S1_def museum_A1_def subway_S2_def)

lemma tie_query:
  "queryResults tie_links tie_nodes balanced =
     [ \<lparr> hotel = hotel_H2, transitCount = 1, cultureCount = 0, score = 1 \<rparr>,
       \<lparr> hotel = hotel_H1, transitCount = 1, cultureCount = 0, score = 1 \<rparr> ]"
  by (simp add: queryResults_def scoreHotel_def sortBy_def cmpScore_def tie_nodes_def
      tie_links_def hotel_H1_def hotel_H2_def subway_S1_def)

section \<open>Classifier\<close>

text \<open>
  C6. The classifier returns one of the three classes on every tag mapping, the empty
  one included (where it returns Attraction). The rules apply in order: a
  \<open>tourism = hotel\<close> tag gives Hotel whatever the other tags are, also when the
  station tags are present; \<open>railway = station\<close> together with \<open>station = subway\<close>
  and no hotel tag gives Subway; every other mapping gives Attraction.
\<close>

theorem classifier_total_priority:
  "classifyOsmElement tgs \<in> {Hotel, Subway, Attraction}
   \<and> classifyOsmElement Map.empty = Attraction
   \<and> (classifyOsmElement tgs = Hotel \<longleftrightarrow> tgs ''tourism'' = Some ''hotel'')
   \<and> (classifyOsmElement tgs = Subway \<longleftrightarrow>
        tgs ''tourism'' \<noteq> Some ''hotel''
        \<and> tgs ''railway'' = Some ''station'' \<and> tgs ''station'' = Some ''subway'')
   \<and> (classifyOsmElement tgs = Attraction \<longleftrightarrow>
        tgs ''tourism'' \<noteq> Some ''hotel''
        \<and> \<not> (tgs ''railway'' = Some ''station'' \<and> tgs ''station'' = Some ''subway''))"
  by (simp add: classifyOsmElement_def)

theorem classifier_total_priority_witness:
  "classifyOsmElement [''tourism'' \<mapsto> ''hotel'', ''railway'' \<mapsto> ''station'',
      ''station'' \<mapsto> ''subway''] = Hotel
   \<and> classifyOsmElement [''railway'' \<mapsto> ''station'', ''station'' \<mapsto> ''subway''] = Subway
   \<and> classifyOsmElement [''tourism'' \<mapsto> ''museum''] = Attraction"
  using classifier_total_priority
          [of "[''tourism'' \<mapsto> ''hotel'', ''railway'' \<mapsto> ''station'', ''station'' \<mapsto> ''subway'']"]
        classifier_total_priority
          [of "[''railway'' \<mapsto> ''station'', ''station'' \<mapsto> ''subway'']"]
        classifier_total_priority [of "[''tourism'' \<mapsto> ''museum'']"]
  by simp

section \<open>Entity builder\<close>

text \<open>
  C7. Each coordinate of a built entity is the record's direct value when the record
  has one (also when a centroid is present), and the centroid's value otherwise: every
  entity comes from a record of the input whose latitude and longitude resolve this
  way, so both are present. A record for which a coordinate has neither a direct nor a
  centroid value is skipped without a trace: the entity sequence is the one built
  without that record.
\<close>

theorem coordinate_resolution:
  "(\<forall>n \<in> set (buildNodes els). \<exists>el \<in> set els.
       node_id n = elementKey el
       \<and> (case el_lat el of
            Some a \<Rightarrow> lat n = a
          | None \<Rightarrow> (case center el of Some c \<Rightarrow> lat n = fst c | None \<Rightarrow> False))
       \<and> (case el_lon el of
            Some b \<Rightarrow> lon n = b
          | None \<Rightarrow> (case center el of Some c \<Rightarrow> lon n = snd c | None \<Rightarrow> False)))
   \<and> ((el_lat r = None \<and> center r = None) \<or> (el_lon r = None \<and> center r = None)
        \<longrightarrow> buildNodes (xs @ r # ys) = buildNodes (xs @ ys))"
proof (intro conjI ballI impI)
  fix n
  assume "n \<in> set (buildNodes els)"
  then have "n \<in> set (List.map_filter candidateNode els)"
    using set_firstById by (auto simp: buildNodes_firstById)
  then obtain el where el: "el \<in> set els" "candidateNode el = Some n"
    by (auto simp: List.map_filter_def)
  from el(2) have "node_id n = elementKey el"
    by (rule candidateNode_id)
  moreover from el(2) have "resolveLat el = Some (lat n)" "resolveLon el = Some (lon n)"
    by (auto simp: candidateNode_def makeNode_def split: option.splits)
  ultimately show "\<exists>el \<in> set els.
       node_id n = elementKey el
       \<and> (case el_lat el of
            Some a \<Rightarrow> lat n = a
          | None \<Rightarrow> (case center el of Some c \<Rightarrow> lat n = fst c | None \<Rightarrow> False))
       \<and> (case el_lon el of
            Some b \<Rightarrow> lon n = b
          | None \<Rightarrow> (case center el of Some c \<Rightarrow> lon n = snd c | None \<Rightarrow> False))"
    using el(1) by (auto simp: resolveLat_def resolveLon_def split: option.splits intro!: bexI[of _ el])
next
  assume "(el_lat r = None \<and> center r = None) \<or> (el_lon r = None \<and> center r = None)"
  then have "candidateNode r = None"
    by (auto simp: candidateNode_def resolveLat_def resolveLon_def split: option.splits)
  then show "buildNodes (xs @ r # ys) = buildNodes (xs @ ys)"
    by (simp add: buildNodes_firstById List.map_filter_def)
qed

theorem coordinate_resolution_witness:
  "(\<exists>el \<in> set scenario_elements.
       node_id hotel_H1 = elementKey el
       \<and> (case el_lat el of
            Some a \<Rightarrow> lat hotel_H1 = a
          | None \<Rightarrow> (case center el of Some c \<Rightarrow> lat hotel_H1 = fst c | None \<Rightarrow> False))
       \<and> (case el_lon el of
            Some b \<Rightarrow> lon hotel_H1 = b
          | None \<Rightarrow> (case center el of Some c \<Rightarrow> lon hotel_H1 = snd c | None \<Rightarrow> False)))
   \<and> buildNodes (scenario_elements @ record_42_bare # []) = buildNodes (scenario_elements @ [])
   \<and> buildNodes scenario_elements = [hotel_H1, subway_S1, museum_A1, subway_S2]"
proof -
  have mem: "hotel_H1 \<in> set (buildNodes scenario_elements)"
    by (simp add: scenario_buildNodes scenario_nodes_def)
  have bare: "(el_lat record_42_bare = None \<and> center record_42_bare = None)
              \<or> (el_lon record_42_bare = None \<and> center record_42_bare = None)"
    by (simp add: record_42_bare_def)
  from coordinate_resolution [of scenario_elements record_42_bare scenario_elements "[]"] mem bare
  show ?thesis
    by (simp add: scenario_buildNodes scenario_nodes_def)
qed

text \<open>
  C8, as stated, fails: the coordinate test comes before the test on the identity key,
  so a record without a usable coordinate never claims its key. Of two records with
  kind node and id 42, the first without coordinates, the second is the one that becomes
  the entity; and two such records without coordinates give no entity at all, not one.
\<close>

theorem first_occurrence_counterexample:
  "el_type record_42_bare = el_type record_42_first
   \<and> el_id record_42_bare = el_id record_42_first
   \<and> buildNodes [record_42_bare, record_42_first] = [makeNode record_42_first 1 2]
   \<and> length (buildNodes [record_42_bare, record_42_bare]) \<noteq> 1"
  by (simp add: record_42_bare_def record_42_first_def buildNodes_def nodeStep_def
      resolveLat_def resolveLon_def)

text \<open>
  C8, amended. Among the records whose coordinates resolve, entities are deduplicated
  by the key \<open>{kind}-{numericId}\<close>, the first such record of a key winning and the
  later ones being dropped: the entity sequence is the first-occurrence deduplication
  of the entities of those records, in input order. So the sequence has at most one
  entity per key, and two records of the same kind and numeric id, the first with
  resolvable coordinates, collapse to the one entity of the first.
\<close>

theorem dedup_first_with_coordinates:
  "buildNodes els = firstById (List.map_filter candidateNode els)
   \<and> distinct (map node_id (buildNodes els))
   \<and> (el_type a = el_type b \<and> el_id a = el_id b \<and> candidateNode a = Some n
        \<longrightarrow> buildNodes [a, b] = [n])"
proof (intro conjI impI)
  show "buildNodes els = firstById (List.map_filter candidateNode els)"
    by (rule buildNodes_firstById)
  show "distinct (map node_id (buildNodes els))"
    by (rule buildNodes_distinct)
next
  assume h: "el_type a = el_type b \<and> el_id a = el_id b \<and> candidateNode a = Some n"
  then have key: "elementKey b = elementKey a"
    by (simp add: elementKey_def)
  show "buildNodes [a, b] = [n]"
  proof (cases "candidateNode b")
    case None
    with h show ?thesis by (simp add: buildNodes_firstById)
  next
    case (Some m)
    then have "node_id m = node_id n"
      using h key candidateNode_id by metis
    with h Some show ?thesis by (simp add: buildNodes_firstById)
  qed
qed

theorem dedup_first_with_coordinates_witness:
  "buildNodes [record_42_first, record_42_second] = [makeNode record_42_first 1 2]
   \<and> buildNodes [record_42_bare, record_42_first, record_42_second]
       = firstById (List.map_filter candidateNode
           [record_42_bare, record_42_first, record_42_second])
   \<and> firstById (List.map_filter candidateNode
         [record_42_bare, record_42_first, record_42_second]) = [makeNode record_42_first 1 2]"
proof -
  have c: "candidateNode record_42_first = Some (makeNode record_42_first 1 2)"
    by (simp add: candidateNode_def resolveLat_def resolveLon_def record_42_first_def)
  have c2: "candidateNode record_42_second = Some (makeNode record_42_second 3 4)"
    by (simp add: candidateNode_def resolveLat_def resolveLon_def record_42_second_def)
  have c0: "candidateNode record_42_bare = None"
    by (simp add: candidateNode_def resolveLat_def resolveLon_def record_42_bare_def)
  have k: "el_type record_42_first = el_type record_42_second
           \<and> el_id record_42_first = el_id record_42_second"
    by (simp add: record_42_first_def record_42_second_def)
  have ids: "node_id (makeNode record_42_second 3 4) = node_id (makeNode record_42_first 1 2)"
    by (simp add: makeNode_def elementKey_def record_42_first_def record_42_second_def)
  note T = dedup_first_with_coordinates
         [of "[record_42_bare, record_42_first, record_42_second]" record_42_first
             record_42_second "makeNode record_42_first 1 2"]
  have "buildNodes [record_42_first, record_42_second] = [makeNode record_42_first 1 2]"
    using T [THEN conjunct2, THEN conjunct2] c k by simp
  moreover have "buildNodes [record_42_bare, record_42_first, record_42_second]
       = firstById (List.map_filter candidateNode
           [record_42_bare, record_42_first, record_42_second])"
    using T by (rule conjunct1)
  moreover have "firstById (List.map_filter candidateNode
         [record_42_bare, record_42_first, record_42_second]) = [makeNode record_42_first 1 2]"
    by (simp add: c c0 c2 ids)
  ultimately show ?thesis by simp
qed

section \<open>Ontology edge generator\<close>

text \<open>
  C1. On an entity set (entities with pairwise different ids), for a Hotel \<open>h\<close> and any
  entity \<open>x\<close>: the generated edges contain an edge from \<open>h\<close> to \<open>x\<close> labelled
  TRANSIT_ACCESS exactly when \<open>x\<close> is a Subway whose Haversine distance from \<open>h\<close>
  (Earth radius 6371000 m) is at most 300 m, and one labelled WALKABLE_TO exactly when
  \<open>x\<close> is an Attraction at distance at most 500 m. Both bounds are inclusive; above
  its threshold a pair gets no edge.
\<close>

theorem proximity_edges_iff_within_threshold:
  assumes "distinct (map node_id ns)" and "h \<in> set ns" and "x \<in> set ns" and "type h = Hotel"
  shows "((\<exists>l \<in> set (buildLinks ns).
             source l = node_id h \<and> target l = node_id x \<and> label l = TRANSIT_ACCESS)
          \<longleftrightarrow> type x = Subway \<and> haversine (lat h) (lon h) (lat x) (lon x) \<le> 300)
       \<and> ((\<exists>l \<in> set (buildLinks ns).
             source l = node_id h \<and> target l = node_id x \<and> label l = WALKABLE_TO)
          \<longleftrightarrow> type x = Attraction \<and> haversine (lat h) (lon h) (lat x) (lon x) \<le> 500)"
proof -
  have same: "a = h \<and> b = x"
    if "a \<in> set ns" "b \<in> set ns" "node_id a = node_id h" "node_id b = node_id x" for a b
    using that assms distinct_ids_inj by blast
  have fwd: "(label l = TRANSIT_ACCESS \<longrightarrow>
                type x = Subway \<and> haversine (lat h) (lon h) (lat x) (lon x) \<le> 300)
           \<and> (label l = WALKABLE_TO \<longrightarrow>
                type x = Attraction \<and> haversine (lat h) (lon h) (lat x) (lon x) \<le> 500)"
    if l: "l \<in> set (buildLinks ns)" "source l = node_id h" "target l = node_id x" for l
  proof -
    from l(1) obtain a b where ab: "a \<in> set ns" "b \<in> set ns"
      "(type b = Subway \<and> haversine (lat a) (lon a) (lat b) (lon b) \<le> 300
          \<and> l = makeLink TRANSIT_ACCESS a b)
       \<or> (type b = Attraction \<and> haversine (lat a) (lon a) (lat b) (lon b) \<le> 500
          \<and> l = makeLink WALKABLE_TO a b)"
      unfolding buildLinks_mem by blast
    from ab(3) have "source l = node_id a" "target l = node_id b"
      by (auto simp: makeLink_def)
    with l ab have "a = h \<and> b = x"
      using same by simp
    with ab(3) show ?thesis
      by (auto simp: makeLink_def)
  qed
  have bwd1: "makeLink TRANSIT_ACCESS h x \<in> set (buildLinks ns)"
    if "type x = Subway" "haversine (lat h) (lon h) (lat x) (lon x) \<le> 300"
    unfolding buildLinks_mem using that assms by blast
  have bwd2: "makeLink WALKABLE_TO h x \<in> set (buildLinks ns)"
    if "type x = Attraction" "haversine (lat h) (lon h) (lat x) (lon x) \<le> 500"
    unfolding buildLinks_mem using that assms by blast
  have transit: "(\<exists>l \<in> set (buildLinks ns).
             source l = node_id h \<and> target l = node_id x \<and> label l = TRANSIT_ACCESS)
          \<longleftrightarrow> type x = Subway \<and> haversine (lat h) (lon h) (lat x) (lon x) \<le> 300"
  proof (rule iffI)
    assume "\<exists>l \<in> set (buildLinks ns).
             source l = node_id h \<and> target l = node_id x \<and> label l = TRANSIT_ACCESS"
    then obtain l where l: "l \<in> set (buildLinks ns)" "source l = node_id h"
      "target l = node_id x" "label l = TRANSIT_ACCESS"
      by blast
    from fwd [OF l(1,2,3)] l(4)
    show "type x = Subway \<and> haversine (lat h) (lon h) (lat x) (lon x) \<le> 300"
      by simp
  next
    assume "type x = Subway \<and> haversine (lat h) (lon h) (lat x) (lon x) \<le> 300"
    then have "makeLink TRANSIT_ACCESS h x \<in> set (buildLinks ns)"
      using bwd1 by simp
    then show "\<exists>l \<in> set (buildLinks ns).
             source l = node_id h \<and> target l = node_id x \<and> label l = TRANSIT_ACCESS"
      by (rule bexI[rotated]) (simp add: makeLink_def)
  qed
  have walkable: "(\<exists>l \<in> set (buildLinks ns).
             source l = node_id h \<and> target l = node_id x \<and> label l = WALKABLE_TO)
          \<longleftrightarrow> type x = Attraction \<and> haversine (lat h) (lon h) (lat x) (lon x) \<le> 500"
  proof (rule iffI)
    assume "\<exists>l \<in> set (buildLinks ns).
             source l = node_id h \<and> target l = node_id x \<and> label l = WALKABLE_TO"
    then obtain l where l: "l \<in> set (buildLinks ns)" "source l = node_id h"
      "target l = node_id x" "label l = WALKABLE_TO"
      by blast
    from fwd [OF l(1,2,3)] l(4)
    show "type x = Attraction \<and> haversine (lat h) (lon h) (lat x) (lon x) \<le> 500"
      by simp
  next
    assume "type x = Attraction \<and> haversine (lat h) (lon h) (lat x) (lon x) \<le> 500"
    then have "makeLink WALKABLE_TO h x \<in> set (buildLinks ns)"
      using bwd2 by simp
    then show "\<exists>l \<in> set (buildLinks ns).
             source l = node_id h \<and> target l = node_id x \<and> label l = WALKABLE_TO"
      by (rule bexI[rotated]) (simp add: makeLink_def)
  qed
  from transit walkable show ?thesis
    by (rule conjI)
qed

theorem proximity_edges_iff_within_threshold_witness:
  "(\<exists>l \<in> set (buildLinks scenario_nodes).
      source l = ''node-1'' \<and> target l = ''node-2'' \<and> label l = TRANSIT_ACCESS)
   \<and> \<not> (\<exists>l \<in> set (buildLinks scenario_nodes).
      source l = ''node-1'' \<and> target l = ''node-4'' \<and> label l = TRANSIT_ACCESS)
   \<and> (\<exists>l \<in> set (buildLinks scenario_nodes).
      source l = ''node-1'' \<and> target l = ''way-3'' \<and> label l = WALKABLE_TO)
   \<and> \<not> (\<exists>l \<in> set (buildLinks scenario_nodes).
      source l = ''node-1'' \<and> target l = ''node-2'' \<and> label l = WALKABLE_TO)"
proof -
  have d: "distinct (map node_id scenario_nodes)"
    by (simp add: scenario_nodes_def hotel_H1_def subway_S1_def museum_A1_def subway_S2_def)
  have m: "hotel_H1 \<in> set scenario_nodes" "subway_S1 \<in> set scenario_nodes"
    "museum_A1 \<in> set scenario_nodes" "subway_S2 \<in> set scenario_nodes"
    by (simp_all add: scenario_nodes_def)
  have t: "type hotel_H1 = Hotel"
    by (simp add: hotel_H1_def)
  show ?thesis
    using proximity_edges_iff_within_threshold [OF d m(1) m(2) t]
      proximity_edges_iff_within_threshold [OF d m(1) m(3) t]
      proximity_edges_iff_within_threshold [OF d m(1) m(4) t]
    by (simp add: hotel_H1_def subway_S1_def museum_A1_def subway_S2_def haversine_same
        haversine_half_turn_gt)
qed

text \<open>
  C5. In a derivation run every edge has both endpoints among the run's entities, and
  whichever entities carry the endpoint ids, the source is a Hotel and the target is a
  Subway when the label is TRANSIT_ACCESS and an Attraction when it is WALKABLE_TO.
  Hence no edge joins two entities of one class, and none joins a Subway and an
  Attraction.
\<close>

theorem edges_respect_ontology:
  assumes "l \<in> set (links (deriveGraph els))"
  shows "(\<exists>a \<in> set (nodes (deriveGraph els)). \<exists>b \<in> set (nodes (deriveGraph els)).
            node_id a = source l \<and> node_id b = target l)
       \<and> (\<forall>a \<in> set (nodes (deriveGraph els)). \<forall>b \<in> set (nodes (deriveGraph els)).
            node_id a = source l \<and> node_id b = target l \<longrightarrow>
              type a = Hotel
              \<and> ((label l = TRANSIT_ACCESS \<and> type b = Subway)
                 \<or> (label l = WALKABLE_TO \<and> type b = Attraction)))"
proof -
  define ns where "ns = buildNodes els"
  define ls where "ls = buildLinks ns"
  have g: "nodes (deriveGraph els) = setDegrees ls ns" "links (deriveGraph els) = ls"
    by (simp_all add: deriveGraph_def Let_def ns_def ls_def)
  have d: "distinct (map node_id ns)"
    unfolding ns_def by (rule buildNodes_distinct)
  from assms obtain h x where hx: "h \<in> set ns" "x \<in> set ns" "type h = Hotel"
    "source l = node_id h" "target l = node_id x"
    "(label l = TRANSIT_ACCESS \<and> type x = Subway) \<or> (label l = WALKABLE_TO \<and> type x = Attraction)"
    unfolding g ls_def buildLinks_mem by (auto simp: makeLink_def)
  have up: "\<exists>m \<in> set ns. node_id a = node_id m \<and> type a = type m"
    if "a \<in> set (setDegrees ls ns)" for a
    using that by (auto simp: setDegrees_def)
  have down: "\<exists>a \<in> set (setDegrees ls ns). node_id a = node_id m" if "m \<in> set ns" for m
    using that by (force simp: setDegrees_def)
  have part1: "\<exists>a \<in> set (setDegrees ls ns). \<exists>b \<in> set (setDegrees ls ns).
            node_id a = source l \<and> node_id b = target l"
    using down[OF hx(1)] down[OF hx(2)] hx(4,5) by auto
  have part2: "type a = Hotel
              \<and> ((label l = TRANSIT_ACCESS \<and> type b = Subway)
                 \<or> (label l = WALKABLE_TO \<and> type b = Attraction))"
    if ab: "a \<in> set (setDegrees ls ns)" "b \<in> set (setDegrees ls ns)"
      "node_id a = source l" "node_id b = target l" for a b
  proof -
    from up[OF ab(1)] obtain ma where ma: "ma \<in> set ns" "node_id a = node_id ma" "type a = type ma"
      by blast
    from up[OF ab(2)] obtain mb where mb: "mb \<in> set ns" "node_id b = node_id mb" "type b = type mb"
      by blast
    have "ma = h"
      using distinct_ids_inj[OF d ma(1) hx(1)] ma(2) ab(3) hx(4) by simp
    moreover have "mb = x"
      using distinct_ids_inj[OF d mb(1) hx(2)] mb(2) ab(4) hx(5) by simp
    ultimately show ?thesis
      using ma(3) mb(3) hx(3,6) by simp
  qed
  show ?thesis
    unfolding g using part1 part2 by blast
qed

theorem edges_respect_ontology_witness:
  "(\<exists>a \<in> set (nodes (deriveGraph scenario_elements)).
      \<exists>b \<in> set (nodes (deriveGraph scenario_elements)).
        node_id a = ''node-1'' \<and> node_id b = ''way-3'')
   \<and> type (hotel_H1\<lparr>degree := 2\<rparr>) = Hotel
   \<and> type (museum_A1\<lparr>degree := 1\<rparr>) = Attraction
   \<and> links (deriveGraph scenario_elements) = scenario_links"
proof -
  let ?l = "\<lparr> source = ''node-1'', target = ''way-3'', label = WALKABLE_TO,
              link_color = ''rgba(245,158,11,0.50)'' \<rparr>"
  have l: "?l \<in> set (links (deriveGraph scenario_elements))"
    by (simp add: scenario_graph scenario_links_def)
  have a: "hotel_H1\<lparr>degree := 2\<rparr> \<in> set (nodes (deriveGraph scenario_elements))"
    and b: "museum_A1\<lparr>degree := 1\<rparr> \<in> set (nodes (deriveGraph scenario_elements))"
    by (simp_all add: scenario_graph)
  have ids: "node_id (hotel_H1\<lparr>degree := 2\<rparr>) = source ?l \<and> node_id (museum_A1\<lparr>degree := 1\<rparr>) = target ?l"
    by (simp add: hotel_H1_def museum_A1_def)
  note T = edges_respect_ontology [OF l]
  have "\<exists>a \<in> set (nodes (deriveGraph scenario_elements)).
      \<exists>b \<in> set (nodes (deriveGraph scenario_elements)).
        node_id a = source ?l \<and> node_id b = target ?l"
    using T by (rule conjunct1)
  moreover have "type (hotel_H1\<lparr>degree := 2\<rparr>) = Hotel
      \<and> ((label ?l = TRANSIT_ACCESS \<and> type (museum_A1\<lparr>degree := 1\<rparr>) = Subway)
         \<or> (label ?l = WALKABLE_TO \<and> type (museum_A1\<lparr>degree := 1\<rparr>) = Attraction))"
    using T [THEN conjunct2, rule_format, OF a b ids] .
  ultimately have "(\<exists>a \<in> set (nodes (deriveGraph scenario_elements)).
      \<exists>b \<in> set (nodes (deriveGraph scenario_elements)).
        node_id a = ''node-1'' \<and> node_id b = ''way-3'')
     \<and> type (hotel_H1\<lparr>degree := 2\<rparr>) = Hotel
     \<and> type (museum_A1\<lparr>degree := 1\<rparr>) = Attraction"
    by simp
  then show ?thesis
    by (simp add: scenario_graph)
qed

text \<open>
  C9. The edge list of a derivation run has no duplicate (source, target, label) triple.
\<close>

theorem edge_triples_unique:
  "distinct (map (\<lambda>l. (source l, target l, label l)) (links (deriveGraph els)))"
  using buildLinks_distinct_triples [OF buildNodes_distinct, of els]
  by (simp add: deriveGraph_def Let_def)

theorem edge_triples_unique_witness:
  "distinct (map (\<lambda>l. (source l, target l, label l)) (links (deriveGraph scenario_elements)))
   \<and> length (links (deriveGraph scenario_elements)) = 2"
  using edge_triples_unique [of scenario_elements]
  by (simp add: scenario_graph scenario_links_def)

section \<open>Centrality computer\<close>

text \<open>
  C4. After the centrality computation of a derivation run, the degree of every entity
  is the number of edges of the run whose source id or target id is the entity's id.
  An entity that no edge touches has degree 0. Degrees are natural numbers.
\<close>

theorem degree_counts_incident_edges:
  assumes "n \<in> set (nodes (deriveGraph els))"
  shows "degree n = length (filter (\<lambda>l. source l = node_id n \<or> target l = node_id n)
                              (links (deriveGraph els)))
       \<and> ((\<forall>l \<in> set (links (deriveGraph els)). source l \<noteq> node_id n \<and> target l \<noteq> node_id n)
            \<longrightarrow> degree n = 0)"
proof -
  define ns where "ns = buildNodes els"
  define ls where "ls = buildLinks ns"
  have g: "nodes (deriveGraph els) = setDegrees ls ns" "links (deriveGraph els) = ls"
    by (simp_all add: deriveGraph_def Let_def ns_def ls_def)
  have "distinct (map node_id ns)"
    unfolding ns_def by (rule buildNodes_distinct)
  then have "\<forall>l \<in> set ls. source l \<noteq> target l"
    unfolding ls_def using buildLinks_endpoints_differ by blast
  then have split: "length (filter (\<lambda>l. source l = node_id n \<or> target l = node_id n) ls)
      = length (filter (\<lambda>l. source l = node_id n) ls)
        + length (filter (\<lambda>l. target l = node_id n) ls)"
    by (rule incident_count_split)
  from assms have "n \<in> set (setDegrees ls ns)"
    by (simp add: g)
  then have "degree n = length (filter (\<lambda>l. source l = node_id n) ls)
        + length (filter (\<lambda>l. target l = node_id n) ls)"
    by (rule setDegrees_degree)
  with split have count: "degree n
      = length (filter (\<lambda>l. source l = node_id n \<or> target l = node_id n) ls)"
    by simp
  have zero: "degree n = 0"
    if "\<forall>l \<in> set ls. source l \<noteq> node_id n \<and> target l \<noteq> node_id n"
  proof -
    from that have "filter (\<lambda>l. source l = node_id n \<or> target l = node_id n) ls = []"
      by (simp add: filter_empty_conv)
    with count show ?thesis by simp
  qed
  from count zero show ?thesis
    unfolding g by blast
qed

theorem degree_counts_incident_edges_witness:
  "hotel_H1\<lparr>degree := 2\<rparr> \<in> set (nodes (deriveGraph scenario_elements))
   \<and> length (filter (\<lambda>l. source l = ''node-1'' \<or> target l = ''node-1'')
        (links (deriveGraph scenario_elements))) = 2
   \<and> subway_S2\<lparr>degree := 0\<rparr> \<in> set (nodes (deriveGraph scenario_elements))
   \<and> \<not> (\<exists>l \<in> set (links (deriveGraph scenario_elements)).
          source l = ''node-4'' \<or> target l = ''node-4'')
   \<and> degree (subway_S2\<lparr>degree := 0\<rparr>) = 0"
proof -
  have a: "hotel_H1\<lparr>degree := 2\<rparr> \<in> set (nodes (deriveGraph scenario_elements))"
    and b: "subway_S2\<lparr>degree := 0\<rparr> \<in> set (nodes (deriveGraph scenario_elements))"
    by (simp_all add: scenario_graph)
  have untouched: "\<forall>l \<in> set (links (deriveGraph scenario_elements)).
      source l \<noteq> node_id (subway_S2\<lparr>degree := 0\<rparr>)
      \<and> target l \<noteq> node_id (subway_S2\<lparr>degree := 0\<rparr>)"
    by (simp add: scenario_graph scenario_links_def subway_S2_def)
  have "degree (hotel_H1\<lparr>degree := 2\<rparr>)
      = length (filter (\<lambda>l. source l = node_id (hotel_H1\<lparr>degree := 2\<rparr>)
                            \<or> target l = node_id (hotel_H1\<lparr>degree := 2\<rparr>))
                 (links (deriveGraph scenario_elements)))"
    using degree_counts_incident_edges [OF a] by (rule conjunct1)
  then have two: "length (filter (\<lambda>l. source l = ''node-1'' \<or> target l = ''node-1'')
        (links (deriveGraph scenario_elements))) = 2"
    by (simp add: hotel_H1_def)
  have zero: "degree (subway_S2\<lparr>degree := 0\<rparr>) = 0"
    using degree_counts_incident_edges [OF b, THEN conjunct2] untouched by (rule mp)
  have none: "\<not> (\<exists>l \<in> set (links (deriveGraph scenario_elements)).
          source l = ''node-4'' \<or> target l = ''node-4'')"
    using untouched by (simp add: subway_S2_def)
  from a two b none zero show ?thesis
    by (intro conjI)
qed

section \<open>Ranking engine\<close>

text \<open>
  C2. With \<open>t\<close> and \<open>c\<close> the numbers of TRANSIT_ACCESS and WALKABLE_TO edges whose
  source or target is the hotel's id, counted in the edge list, the score is
  \<open>2t + c\<close> (transit), \<open>2c + t\<close> (culture), \<open>t + c\<close> (balanced), \<open>3t + c\<close> (hub),
  \<open>3c + t\<close> (corridor), and under connected \<open>t + c\<close> when both are positive and 0 when
  one of them is 0. Every entry of the ranking carries this score for its hotel, and
  the degree field of the hotel plays no part.
\<close>

theorem ranking_score_formulas:
  "score (scoreHotel ls transit h)
     = 2 * incidentCount TRANSIT_ACCESS ls (node_id h) + incidentCount WALKABLE_TO ls (node_id h)
   \<and> score (scoreHotel ls culture h)
     = 2 * incidentCount WALKABLE_TO ls (node_id h) + incidentCount TRANSIT_ACCESS ls (node_id h)
   \<and> score (scoreHotel ls balanced h)
     = incidentCount TRANSIT_ACCESS ls (node_id h) + incidentCount WALKABLE_TO ls (node_id h)
   \<and> score (scoreHotel ls hub h)
     = 3 * incidentCount TRANSIT_ACCESS ls (node_id h) + incidentCount WALKABLE_TO ls (node_id h)
   \<and> score (scoreHotel ls corridor h)
     = 3 * incidentCount WALKABLE_TO ls (node_id h) + incidentCount TRANSIT_ACCESS ls (node_id h)
   \<and> (0 < incidentCount TRANSIT_ACCESS ls (node_id h)
        \<and> 0 < incidentCount WALKABLE_TO ls (node_id h)
      \<longrightarrow> score (scoreHotel ls connected h)
           = incidentCount TRANSIT_ACCESS ls (node_id h) + incidentCount WALKABLE_TO ls (node_id h))
   \<and> (incidentCount TRANSIT_ACCESS ls (node_id h) = 0
        \<or> incidentCount WALKABLE_TO ls (node_id h) = 0
      \<longrightarrow> score (scoreHotel ls connected h) = 0)
   \<and> (\<forall>r \<in> set (queryResults ls ns m). r = scoreHotel ls m (hotel r))
   \<and> score (scoreHotel ls m (h\<lparr>degree := d\<rparr>)) = score (scoreHotel ls m h)"
proof -
  have res: "\<forall>r \<in> set (queryResults ls ns m). r = scoreHotel ls m (hotel r)"
    using queryResults_subset [of ls ns m] scoreHotel_hotel by fastforce
  have rest: "score (scoreHotel ls m (h\<lparr>degree := d\<rparr>)) = score (scoreHotel ls m h)"
    by (simp add: scoreHotel_def Let_def)
  show ?thesis
    using res rest by (simp add: scoreHotel_def incidentCount_def Let_def)
qed

theorem ranking_score_formulas_witness:
  "incidentCount TRANSIT_ACCESS scenario_links ''node-1'' = 1
   \<and> incidentCount WALKABLE_TO scenario_links ''node-1'' = 1
   \<and> score (scoreHotel scenario_links transit hotel_H1) = 3
   \<and> score (scoreHotel scenario_links connected hotel_H1) = 2
   \<and> incidentCount WALKABLE_TO tie_links ''node-1'' = 0
   \<and> score (scoreHotel tie_links connected hotel_H1) = 0
   \<and> \<lparr> hotel = hotel_H1, transitCount = 1, cultureCount = 1, score = 3 \<rparr>
        = scoreHotel scenario_links transit hotel_H1"
proof -
  have t: "incidentCount TRANSIT_ACCESS scenario_links (node_id hotel_H1) = 1"
    and c: "incidentCount WALKABLE_TO scenario_links (node_id hotel_H1) = 1"
    and c': "incidentCount WALKABLE_TO tie_links (node_id hotel_H1) = 0"
    and i: "node_id hotel_H1 = ''node-1''"
    by (simp_all add: incidentCount_def scenario_links_def tie_links_def hotel_H1_def)
  have r: "\<lparr> hotel = hotel_H1, transitCount = 1, cultureCount = 1, score = 3 \<rparr>
        \<in> set (queryResults scenario_links scenario_nodes transit)"
    by (simp add: scenario_query)
  note A = ranking_score_formulas [of scenario_links hotel_H1 scenario_nodes transit 0]
  note B = ranking_score_formulas [of tie_links hotel_H1 tie_nodes balanced 0]
  have "score (scoreHotel scenario_links transit hotel_H1) = 3"
    using A t c by simp
  moreover have "score (scoreHotel scenario_links connected hotel_H1) = 2"
    using A t c by simp
  moreover have "score (scoreHotel tie_links connected hotel_H1) = 0"
    using B c' by simp
  moreover have "\<lparr> hotel = hotel_H1, transitCount = 1, cultureCount = 1, score = 3 \<rparr>
        = scoreHotel scenario_links transit hotel_H1"
    using A r by auto
  ultimately show ?thesis
    using t c c' i by simp
qed

text \<open>
  C3. Whatever the entities, the edges and the mode, every entry of the ranking is a
  Hotel of the entity sequence with a strictly positive score, the ranking has at most
  5 entries, and the scores never increase along it. With no entity or with no edge the
  ranking is the empty list.
\<close>

theorem ranking_output_shape:
  "(\<forall>r \<in> set (queryResults ls ns m).
      hotel r \<in> set ns \<and> type (hotel r) = Hotel \<and> 0 < score r)
   \<and> length (queryResults ls ns m) \<le> 5
   \<and> sorted_wrt (\<lambda>a b. score b \<le> score a) (queryResults ls ns m)
   \<and> queryResults ls [] m = []
   \<and> queryResults [] ns m = []"
proof (intro conjI)
  show "\<forall>r \<in> set (queryResults ls ns m).
      hotel r \<in> set ns \<and> type (hotel r) = Hotel \<and> 0 < score r"
    using queryResults_subset [of ls ns m] by (auto simp: scoreHotel_hotel)
  show "length (queryResults ls ns m) \<le> 5"
    by (simp add: queryResults_def)
  show "sorted_wrt (\<lambda>a b. score b \<le> score a) (queryResults ls ns m)"
    by (simp add: queryResults_def sorted_wrt_take sortBy_cmpScore_sorted)
  show "queryResults ls [] m = []"
    by (simp add: queryResults_def)
  show "queryResults [] ns m = []"
    by (simp add: queryResults_def)
qed

theorem ranking_output_shape_witness:
  "\<lparr> hotel = hotel_H1, transitCount = 1, cultureCount = 1, score = 3 \<rparr>
      \<in> set (queryResults scenario_links scenario_nodes transit)
   \<and> hotel_H1 \<in> set scenario_nodes
   \<and> type hotel_H1 = Hotel
   \<and> length (queryResults scenario_links scenario_nodes transit) = 1"
proof -
  let ?r = "\<lparr> hotel = hotel_H1, transitCount = 1, cultureCount = 1, score = 3 \<rparr>"
  have r: "?r \<in> set (queryResults scenario_links scenario_nodes transit)"
    by (simp add: scenario_query)
  have "hotel ?r \<in> set scenario_nodes \<and> type (hotel ?r) = Hotel \<and> 0 < score ?r"
    using ranking_output_shape [of scenario_links scenario_nodes transit, THEN conjunct1,
        rule_format, OF r] .
  then show ?thesis
    using r by (simp add: scenario_query)
qed

text \<open>
  C10. Ties keep the input order. For every score \<open>k\<close>, the hotels returned with score
  \<open>k\<close> are, in the order of the ranking, an initial part of the hotels of the entity
  sequence that score \<open>k\<close>, in the order of that sequence. The ranking is a function
  of the edges, the entities and the mode alone.
\<close>

theorem ranking_ties_keep_input_order:
  "prefix (map hotel (filter (\<lambda>r. score r = k) (queryResults ls ns m)))
          (filter (\<lambda>h. type h = Hotel \<and> score (scoreHotel ls m h) = k) ns)"
proof (cases "length ls = 0 \<or> length ns = 0")
  case True
  then show ?thesis by (auto simp: queryResults_def)
next
  case False
  define cand where "cand = filter (\<lambda>r. 0 < score r)
                (map (scoreHotel ls m) (filter (\<lambda>n. type n = Hotel) ns))"
  have q: "queryResults ls ns m = take 5 (sortBy cmpScore cand)"
    using False by (simp add: queryResults_def cand_def)
  have "prefix (take 5 (sortBy cmpScore cand)) (sortBy cmpScore cand)"
    by (rule take_is_prefix)
  then have "prefix (filter (\<lambda>r. score r = k) (take 5 (sortBy cmpScore cand)))
                    (filter (\<lambda>r. score r = k) (sortBy cmpScore cand))"
    by (rule filter_mono_prefix)
  then have p: "prefix (filter (\<lambda>r. score r = k) (queryResults ls ns m))
                       (filter (\<lambda>r. score r = k) cand)"
    by (simp add: q sortBy_cmpScore_stable)
  have "map hotel (filter (\<lambda>r. score r = k) (map (scoreHotel ls m) (filter (\<lambda>n. type n = Hotel) ns)))
        = filter (\<lambda>h. type h = Hotel \<and> score (scoreHotel ls m h) = k) ns"
    by (induction ns) (auto simp: scoreHotel_hotel)
  show ?thesis
  proof (cases "k = 0")
    case True
    have "filter (\<lambda>r. score r = k) (queryResults ls ns m) = []"
      using queryResults_subset [of ls ns m] True by (auto simp: filter_empty_conv)
    then show ?thesis by simp
  next
    case False
    then have "filter (\<lambda>r. score r = k) cand
        = filter (\<lambda>r. score r = k) (map (scoreHotel ls m) (filter (\<lambda>n. type n = Hotel) ns))"
      unfolding cand_def by (auto intro: filter_cong)
    with p have "prefix (filter (\<lambda>r. score r = k) (queryResults ls ns m))
        (filter (\<lambda>r. score r = k) (map (scoreHotel ls m) (filter (\<lambda>n. type n = Hotel) ns)))"
      by simp
    then have "prefix (map hotel (filter (\<lambda>r. score r = k) (queryResults ls ns m)))
        (map hotel (filter (\<lambda>r. score r = k)
           (map (scoreHotel ls m) (filter (\<lambda>n. type n = Hotel) ns))))"
      by (rule map_mono_prefix)
    then show ?thesis
      using \<open>map hotel (filter (\<lambda>r. score r = k) (map (scoreHotel ls m) (filter (\<lambda>n. type n = Hotel) ns)))
        = filter (\<lambda>h. type h = Hotel \<and> score (scoreHotel ls m h) = k) ns\<close> by simp
  qed
qed

theorem ranking_ties_keep_input_order_witness:
  "map hotel (queryResults tie_links tie_nodes balanced) = [hotel_H2, hotel_H1]
   \<and> prefix (map hotel (filter (\<lambda>r. score r = 1) (queryResults tie_links tie_nodes balanced)))
        [hotel_H2, hotel_H1]"
proof -
  have "filter (\<lambda>h. type h = Hotel \<and> score (scoreHotel tie_links balanced h) = 1) tie_nodes
        = [hotel_H2, hotel_H1]"
    by (simp add: tie_nodes_def tie_links_def scoreHotel_def hotel_H1_def hotel_H2_def
        subway_S1_def)
  then show ?thesis
    using ranking_ties_keep_input_order [of 1 tie_links tie_nodes balanced]
    by (simp add: tie_query)
qed

end
